theory Spec2Isabelle
  imports Main "HOL-Library.Word"
begin

section \<open>Node evacuation: data model\<close>

text \<open>
  The Go file under verification is the \<open>evacuate\<close> part of package \<open>node\<close>
  (\<open>EvacuateOptions\<close>, \<open>Run\<close>, \<open>RunEvacuate\<close>, \<open>makeDeleteOptions\<close>).
  The API objects are reduced to the fields the code reads; label sets and selectors are
  Go \<open>map[string]string\<close> values, hence partial functions.
\<close>

record Node =
  Node_Name :: string
  Node_APIVersion :: string
  Unschedulable :: bool

record Pod =
  Namespace :: string
  Name :: string
  Labels :: "string \<rightharpoonup> string"
  Host :: string

record ReplicationController =
  RC_Namespace :: string
  RC_Name :: string
  Selector :: "string \<rightharpoonup> string"

record DeleteOptions =
  GracePeriodSeconds :: "64 word option"

text \<open>
  Error values. \<open>External\<close> is an error handed back by a collaborator (node resolution,
  selector parsing, the API client, printer lookup); the two \<open>fmt.Errorf\<close> sites of
  \<open>RunEvacuate\<close> have a constructor each, and \<open>Aggregate\<close> is the value built by
  \<open>kerrors.NewAggregate\<close>.
\<close>

datatype error =
    External string
  | NodeNotUnschedulable string
  | UnsafePodsRemain
  | Aggregate "error list"

text \<open>The message of the two errors that \<open>RunEvacuate\<close> formats itself.\<close>

primrec (nonexhaustive) Error :: "error \<Rightarrow> string" where
  "Error (External s) = s"
| "Error (NodeNotUnschedulable name) =
     ''Node '' @ [CHR 0x27] @ name @ [CHR 0x27] @
     '' must be unschedulable to perform evacuation.'' @ [CHR 0x0A] @
     ''You can mark the node unschedulable with '' @ [CHR 0x27] @
     ''openshift admin manage-node '' @ name @ '' --schedulable=false'' @ [CHR 0x27]"
| "Error UnsafePodsRemain =
     ''Unable to evacuate some pods because they are not backed by replication controller.'' @ [CHR 0x0A] @
     ''Suggested options:'' @ [CHR 0x0A] @
     ''- You can list bare pods in json/yaml format using '' @ [CHR 0x27] @
     ''--list-pods -o json|yaml'' @ [CHR 0x27] @ [CHR 0x0A] @
     ''- Force deletion of bare pods with --force option to --evacuate'' @ [CHR 0x0A] @
     ''- Optionally recreate these bare pods by massaging the json/yaml output from above list pods'' @ [CHR 0x0A]"

text \<open>
  Modelled from the spec: \<open>kerrors.NewAggregate\<close> is library code that is not under
  \<open>src/\<close>. Spec section 6: the operation returns a single aggregated error, nil/empty if
  nothing failed. So an empty list gives nil, any other list one aggregate of it.
\<close>

definition NewAggregate :: "error list \<Rightarrow> error option" where
  "NewAggregate errlist = (if errlist = [] then None else Some (Aggregate errlist))"

subsection \<open>Effects\<close>

text \<open>
  Everything the code does to the outside is appended to one trace, in program order:
  calls on the API client, writes to \<open>ErrWriter\<close>, objects printed to \<open>Writer\<close> with
  either printer, and \<open>glog.Errorf\<close> lines. The cluster behind the client is the other
  half of the world.
\<close>

datatype 'sel event =
    PodsListCall string 'sel "string \<times> string"
  | RCListCall string
  | PodsDeleteCall string string DeleteOptions
  | ErrWriterPrint string
  | PrintObjWithHeaders Pod
  | PrintObjNoHeaders Pod
  | GlogErrorf Pod error

record ('c, 'sel) world =
  cluster :: 'c
  trace :: "'sel event list"

definition emit :: "'sel event \<Rightarrow> ('c, 'sel) world \<Rightarrow> ('c, 'sel) world" where
  "emit ev w = w\<lparr>trace := trace w @ [ev]\<rparr>"

text \<open>
  The API client: listing reads the cluster, deleting may change it. A list selector for
  fields is the single pair built by \<open>fields.Set{key: value}.AsSelector()\<close>.
\<close>

record ('c, 'sel) Client =
  Pods_List :: "'c \<Rightarrow> string \<Rightarrow> 'sel \<Rightarrow> string \<times> string \<Rightarrow> string + Pod list"
  ReplicationControllers_List :: "'c \<Rightarrow> string \<Rightarrow> string + ReplicationController list"
  Pods_Delete :: "'c \<Rightarrow> string \<Rightarrow> string \<Rightarrow> DeleteOptions \<Rightarrow> string option \<times> 'c"

text \<open>
  \<open>NodeOptions\<close> is declared in another file of the package; the fields used here are
  the client, the pod selector text, and the results of its methods \<open>GetNodes\<close> and
  \<open>GetPrintersByResource\<close> (an error, or the pair of printers that the trace events
  \<open>PrintObjWithHeaders\<close> and \<open>PrintObjNoHeaders\<close> stand for). The two package-level
  helpers \<open>labels.Parse\<close> and \<open>GetPodHostFieldLabel\<close> are parameters as well.
\<close>

record ('c, 'sel) NodeOptions =
  Kclient :: "('c, 'sel) Client"
  PodSelector :: string
  GetNodes :: "string + Node list"
  GetPrintersByResource :: "string option"
  labels_Parse :: "string \<Rightarrow> string + 'sel"
  GetPodHostFieldLabel :: "string \<Rightarrow> string"

record ('c, 'sel) EvacuateOptions =
  Options :: "('c, 'sel) NodeOptions"
  DryRun :: bool
  Force :: bool
  GracePeriod :: "64 word"

definition NamespaceAll :: string where
  "NamespaceAll = ''''"

definition NewEvacuateOptions :: "('c, 'sel) NodeOptions \<Rightarrow> ('c, 'sel) EvacuateOptions" where
  "NewEvacuateOptions nodeOptions =
     \<lparr>Options = nodeOptions, DryRun = False, Force = False, GracePeriod = 30\<rparr>"

definition makeDeleteOptions :: "('c, 'sel) EvacuateOptions \<Rightarrow> DeleteOptions" where
  "makeDeleteOptions e = \<lparr>GracePeriodSeconds = Some (GracePeriod e)\<rparr>"

section \<open>Classification\<close>

text \<open>
  Modelled from the spec: \<open>labels.SelectorFromSet\<close> and \<open>Selector.Matches\<close> are library
  code that is not under \<open>src/\<close>. Spec section 4.1: a controller matches a pod when every
  key/value pair in the controller's selector is present and equal in the pod's labels.
\<close>

definition Matches :: "(string \<rightharpoonup> string) \<Rightarrow> (string \<rightharpoonup> string) \<Rightarrow> bool" where
  "Matches selector ls = (\<forall>k \<in> dom selector. ls k = selector k)"

text \<open>The inner loop of \<open>RunEvacuate\<close>: the first matching controller sets \<open>foundrc\<close> and breaks.\<close>

fun foundrc :: "ReplicationController list \<Rightarrow> Pod \<Rightarrow> bool" where
  "foundrc [] pod = False"
| "foundrc (rc # rcs) pod =
     (if Matches (Selector rc) (Labels pod) then True else foundrc rcs pod)"

section \<open>Evacuating one node\<close>

text \<open>
  The variables of the pod loop. \<open>numPodsWithNoRC\<close> is a Go \<open>int\<close> that is incremented
  at most once per element of \<open>pods.Items\<close>, so it cannot overflow and is a \<open>nat\<close> here.
\<close>

record LoopVars =
  errList :: "error list"
  firstPod :: bool
  numPodsWithNoRC :: nat

definition banner :: "Node \<Rightarrow> string" where
  "banner node =
     [CHR 0x0A] @ ''Migrating these pods on node: '' @ Node_Name node @ [CHR 0x0A, CHR 0x0A]"

text \<open>The printing step of the loop body: banner and header printer for the first pod only.\<close>

definition printPod ::
  "Node \<Rightarrow> Pod \<Rightarrow> LoopVars \<times> ('c, 'sel) world \<Rightarrow> LoopVars \<times> ('c, 'sel) world" where
  "printPod node pod st =
     (case st of (vars, w) \<Rightarrow>
        if firstPod vars
        then (vars\<lparr>firstPod := False\<rparr>,
              emit (PrintObjWithHeaders pod) (emit (ErrWriterPrint (banner node)) w))
        else (vars, emit (PrintObjNoHeaders pod) w))"

text \<open>
  The deleting step: a pod that has a controller, or any pod under \<open>--force\<close>, is deleted
  through the client; a failed delete is logged, appended to \<open>errList\<close>, and the loop
  goes on (\<open>continue\<close>). Any other pod is only counted.
\<close>

definition deletePod ::
  "('c, 'sel) EvacuateOptions \<Rightarrow> ReplicationController list \<Rightarrow> DeleteOptions \<Rightarrow> Pod \<Rightarrow>
     LoopVars \<times> ('c, 'sel) world \<Rightarrow> LoopVars \<times> ('c, 'sel) world" where
  "deletePod e rcs deleteOptions pod st =
     (case st of (vars, w) \<Rightarrow>
        if foundrc rcs pod \<or> Force e
        then (case Pods_Delete (Kclient (Options e)) (cluster w) (Namespace pod) (Name pod)
                     deleteOptions of
                (Some err, c) \<Rightarrow>
                  (vars\<lparr>errList := errList vars @ [External err]\<rparr>,
                   emit (GlogErrorf pod (External err))
                     (emit (PodsDeleteCall (Namespace pod) (Name pod) deleteOptions)
                        (w\<lparr>cluster := c\<rparr>)))
              | (None, c) \<Rightarrow>
                  (vars,
                   emit (PodsDeleteCall (Namespace pod) (Name pod) deleteOptions)
                     (w\<lparr>cluster := c\<rparr>)))
        else (vars\<lparr>numPodsWithNoRC := numPodsWithNoRC vars + 1\<rparr>, w))"

definition podBody ::
  "('c, 'sel) EvacuateOptions \<Rightarrow> Node \<Rightarrow> ReplicationController list \<Rightarrow> DeleteOptions \<Rightarrow> Pod \<Rightarrow>
     LoopVars \<times> ('c, 'sel) world \<Rightarrow> LoopVars \<times> ('c, 'sel) world" where
  "podBody e node rcs deleteOptions pod st =
     deletePod e rcs deleteOptions pod (printPod node pod st)"

fun podsLoop ::
  "('c, 'sel) EvacuateOptions \<Rightarrow> Node \<Rightarrow> ReplicationController list \<Rightarrow> DeleteOptions \<Rightarrow>
     Pod list \<Rightarrow> LoopVars \<times> ('c, 'sel) world \<Rightarrow> LoopVars \<times> ('c, 'sel) world" where
  "podsLoop e node rcs deleteOptions [] st = st"
| "podsLoop e node rcs deleteOptions (pod # pods) st =
     podsLoop e node rcs deleteOptions pods (podBody e node rcs deleteOptions pod st)"

text \<open>What follows the loop: the one synthetic error, then the aggregate or nil.\<close>

definition finish :: "LoopVars \<times> ('c, 'sel) world \<Rightarrow> error option \<times> ('c, 'sel) world" where
  "finish st =
     (case st of (vars, w) \<Rightarrow>
        let errs = (if numPodsWithNoRC vars > 0 then errList vars @ [UnsafePodsRemain]
                    else errList vars)
        in if length errs \<noteq> 0 then (NewAggregate errs, w) else (None, w))"

subsection \<open>The dry-run listing\<close>

text \<open>
  \<open>ListPodsOptions.Run\<close>, the listing operation that the dry-run branch delegates to,
  is in a file of the package that is not under \<open>src/\<close>; the four definitions of this
  subsection stand for it. Spec section 4.2, step 3: under \<open>dryRun\<close> the executor
  performs no deletions; it only enumerates and prints target pods (equivalent to a
  read-only listing operation). Target pods are (section 4.1) the pods matching the pod
  selector that are hosted on the node; a selector that does not parse aborts before any
  listing, and a failed listing aborts the node. The call site hands over the options
  only, so the nodes are the ones the options resolve to.
\<close>

text \<open>
  Modelled from the spec: the printing of the listed pods by the absent
  \<open>ListPodsOptions.Run\<close>; the first pod goes through the printer with headers.
\<close>

fun printPods :: "bool \<Rightarrow> Pod list \<Rightarrow> ('c, 'sel) world \<Rightarrow> ('c, 'sel) world" where
  "printPods first [] w = w"
| "printPods first (pod # pods) w =
     printPods False pods
       (emit (if first then PrintObjWithHeaders pod else PrintObjNoHeaders pod) w)"

text \<open>
  Modelled from the spec: the listing of one node by the absent \<open>ListPodsOptions.Run\<close>:
  parse the selector, list the pods of the node, print them; nothing is deleted.
\<close>

definition runListPods ::
  "('c, 'sel) NodeOptions \<Rightarrow> Node \<Rightarrow> ('c, 'sel) world \<Rightarrow> error option \<times> ('c, 'sel) world" where
  "runListPods opts node w =
     (case labels_Parse opts (PodSelector opts) of
        Inl err \<Rightarrow> (Some (External err), w)
      | Inr labelSelector \<Rightarrow>
          let fieldSelector = (GetPodHostFieldLabel opts (Node_APIVersion node), Node_Name node);
              w1 = emit (PodsListCall NamespaceAll labelSelector fieldSelector) w
          in (case Pods_List (Kclient opts) (cluster w1) NamespaceAll labelSelector fieldSelector of
                Inl err \<Rightarrow> (Some (External err), w1)
              | Inr pods \<Rightarrow> (None, printPods True pods w1)))"

text \<open>
  Modelled from the spec: the absent \<open>ListPodsOptions.Run\<close> goes through the nodes and
  collects their errors (section 7: errors are collected, not thrown past their node).
\<close>

fun listNodes ::
  "('c, 'sel) NodeOptions \<Rightarrow> Node list \<Rightarrow> error list \<times> ('c, 'sel) world \<Rightarrow>
     error list \<times> ('c, 'sel) world" where
  "listNodes opts [] st = st"
| "listNodes opts (node # nodes) st =
     (case st of (errs, w) \<Rightarrow>
        (case runListPods opts node w of
           (Some err, w') \<Rightarrow> listNodes opts nodes (errs @ [err], w')
         | (None, w') \<Rightarrow> listNodes opts nodes (errs, w')))"

text \<open>
  Modelled from the spec: \<open>ListPodsOptions.Run\<close> itself, absent from \<open>src/\<close>: the
  read-only listing of section 4.2, step 3, over the nodes of the options.
\<close>

definition ListPodsOptions_Run ::
  "('c, 'sel) NodeOptions \<Rightarrow> ('c, 'sel) world \<Rightarrow> error option \<times> ('c, 'sel) world" where
  "ListPodsOptions_Run opts w =
     (case GetNodes opts of
        Inl err \<Rightarrow> (Some (External err), w)
      | Inr nodes \<Rightarrow>
          (case listNodes opts nodes ([], w) of (errs, w') \<Rightarrow> (NewAggregate errs, w')))"

subsection \<open>The call\<close>

text \<open>\<open>RunEvacuate\<close>, branch by branch as in the source.\<close>

definition RunEvacuate ::
  "('c, 'sel) EvacuateOptions \<Rightarrow> Node \<Rightarrow> ('c, 'sel) world \<Rightarrow> error option \<times> ('c, 'sel) world" where
  "RunEvacuate e node w =
     (if DryRun e then ListPodsOptions_Run (Options e) w
      else if \<not> Unschedulable node then (Some (NodeNotUnschedulable (Node_Name node)), w)
      else
        (case labels_Parse (Options e) (PodSelector (Options e)) of
           Inl err \<Rightarrow> (Some (External err), w)
         | Inr labelSelector \<Rightarrow>
             let fieldSelector =
                   (GetPodHostFieldLabel (Options e) (Node_APIVersion node), Node_Name node);
                 w1 = emit (PodsListCall NamespaceAll labelSelector fieldSelector) w
             in (case Pods_List (Kclient (Options e)) (cluster w1) NamespaceAll labelSelector
                        fieldSelector of
                   Inl err \<Rightarrow> (Some (External err), w1)
                 | Inr pods \<Rightarrow>
                     let w2 = emit (RCListCall NamespaceAll) w1
                     in (case ReplicationControllers_List (Kclient (Options e)) (cluster w2)
                                NamespaceAll of
                           Inl err \<Rightarrow> (Some (External err), w2)
                         | Inr rcs \<Rightarrow>
                             (case GetPrintersByResource (Options e) of
                                Some err \<Rightarrow> (Some (External err), w2)
                              | None \<Rightarrow>
                                  finish
                                    (podsLoop e node rcs (makeDeleteOptions e) pods
                                       (\<lparr>errList = [], firstPod = True, numPodsWithNoRC = 0\<rparr>,
                                        w2)))))))"

section \<open>Evacuating the batch\<close>

text \<open>The loop of \<open>Run\<close>: every node is evacuated, an error is appended, nothing stops it.\<close>

fun nodesLoop ::
  "('c, 'sel) EvacuateOptions \<Rightarrow> Node list \<Rightarrow> error list \<times> ('c, 'sel) world \<Rightarrow>
     error list \<times> ('c, 'sel) world" where
  "nodesLoop e [] st = st"
| "nodesLoop e (node # nodes) st =
     (case st of (errs, w) \<Rightarrow>
        (case RunEvacuate e node w of
           (Some err, w') \<Rightarrow> nodesLoop e nodes (errs @ [err], w')
         | (None, w') \<Rightarrow> nodesLoop e nodes (errs, w')))"

definition Run ::
  "('c, 'sel) EvacuateOptions \<Rightarrow> ('c, 'sel) world \<Rightarrow> error option \<times> ('c, 'sel) world" where
  "Run e w =
     (case GetNodes (Options e) of
        Inl err \<Rightarrow> (Some (External err), w)
      | Inr nodes \<Rightarrow>
          (case nodesLoop e nodes ([], w) of (errs, w') \<Rightarrow> (NewAggregate errs, w')))"

section \<open>Reading an outcome\<close>

text \<open>
  The error list of a node: the elements of the aggregate that \<open>RunEvacuate\<close> returns,
  the single error of an aborted node, nothing for nil.
\<close>

fun errorsOf :: "error option \<Rightarrow> error list" where
  "errorsOf None = []"
| "errorsOf (Some (Aggregate errs)) = errs"
| "errorsOf (Some err) = [err]"

text \<open>Projections of a trace: the delete calls, and what reached the two output streams.\<close>

fun isDelete :: "'sel event \<Rightarrow> bool" where
  "isDelete (PodsDeleteCall ns name opts) = True"
| "isDelete ev = False"

fun isOutput :: "'sel event \<Rightarrow> bool" where
  "isOutput (ErrWriterPrint s) = True"
| "isOutput (PrintObjWithHeaders pod) = True"
| "isOutput (PrintObjNoHeaders pod) = True"
| "isOutput ev = False"

fun isReadOnly :: "'sel event \<Rightarrow> bool" where
  "isReadOnly (PodsListCall ns ls fs) = True"
| "isReadOnly (PrintObjWithHeaders pod) = True"
| "isReadOnly (PrintObjNoHeaders pod) = True"
| "isReadOnly ev = False"

definition deleteCalls :: "'sel event list \<Rightarrow> 'sel event list" where
  "deleteCalls tr = filter isDelete tr"

definition outputs :: "'sel event list \<Rightarrow> 'sel event list" where
  "outputs tr = filter isOutput tr"

text \<open>
  A step from one world to another that only reads: the cluster is the same, and the
  trace grew by pod listings and printed objects, nothing else.
\<close>

definition onlyReads :: "('c, 'sel) world \<Rightarrow> ('c, 'sel) world \<Rightarrow> bool" where
  "onlyReads w w' =
     (cluster w' = cluster w \<and> take (length (trace w)) (trace w') = trace w \<and>
      list_all isReadOnly (drop (length (trace w)) (trace w')))"

definition deleteOf :: "DeleteOptions \<Rightarrow> Pod \<Rightarrow> 'sel event" where
  "deleteOf opts pod = PodsDeleteCall (Namespace pod) (Name pod) opts"

text \<open>The world in which the pod loop starts, after the two listings.\<close>

definition listed :: "('c, 'sel) EvacuateOptions \<Rightarrow> Node \<Rightarrow> 'sel \<Rightarrow> ('c, 'sel) world \<Rightarrow> ('c, 'sel) world" where
  "listed e node labelSelector w =
     emit (RCListCall NamespaceAll)
       (emit (PodsListCall NamespaceAll labelSelector
                (GetPodHostFieldLabel (Options e) (Node_APIVersion node), Node_Name node)) w)"

definition initVars :: LoopVars where
  "initVars = \<lparr>errList = [], firstPod = True, numPodsWithNoRC = 0\<rparr>"

text \<open>
  The batch as the specification words it: the nodes one after the other in input order,
  each in the world its predecessor left, whatever that predecessor returned.
\<close>

fun nodeOutcomes ::
  "('c, 'sel) EvacuateOptions \<Rightarrow> Node list \<Rightarrow> ('c, 'sel) world \<Rightarrow> error option list" where
  "nodeOutcomes e [] w = []"
| "nodeOutcomes e (node # nodes) w =
     fst (RunEvacuate e node w) # nodeOutcomes e nodes (snd (RunEvacuate e node w))"

fun afterNodes ::
  "('c, 'sel) EvacuateOptions \<Rightarrow> Node list \<Rightarrow> ('c, 'sel) world \<Rightarrow> ('c, 'sel) world" where
  "afterNodes e [] w = w"
| "afterNodes e (node # nodes) w = afterNodes e nodes (snd (RunEvacuate e node w))"

section \<open>A small cluster\<close>

text \<open>
  An in-memory client to run the code on: the cluster is its list of pods, a pod list
  request returns the pods of the host named by the field selector, deleting removes the
  pod unless its name is locked, and the controllers are fixed. The scenario is the one of
  the specification: node \<open>n1\<close> is unschedulable and hosts \<open>p1\<close>, which the controller
  selects, and \<open>p2\<close>, which no controller selects; node \<open>n0\<close> is still schedulable.
\<close>

definition memClient :: "ReplicationController list \<Rightarrow> string list \<Rightarrow> (Pod list, string) Client" where
  "memClient rcs locked =
     \<lparr>Pods_List = (\<lambda>c ns ls fs. Inr (filter (\<lambda>p. Host p = snd fs) c)),
      ReplicationControllers_List = (\<lambda>c ns. Inr rcs),
      Pods_Delete = (\<lambda>c ns name opts.
         if name \<in> set locked then (Some ''forbidden'', c)
         else (None, filter (\<lambda>p. \<not> (Namespace p = ns \<and> Name p = name)) c))\<rparr>"

definition memOptions ::
  "Node list \<Rightarrow> ReplicationController list \<Rightarrow> string list \<Rightarrow> string option \<Rightarrow>
     (Pod list, string) NodeOptions" where
  "memOptions nodes rcs locked printerError =
     \<lparr>Kclient = memClient rcs locked, PodSelector = '''', GetNodes = Inr nodes,
      GetPrintersByResource = printerError, labels_Parse = Inr,
      GetPodHostFieldLabel = (\<lambda>v. ''spec.host'')\<rparr>"

definition n0 :: Node where
  "n0 = \<lparr>Node_Name = ''n0'', Node_APIVersion = ''v1'', Unschedulable = False\<rparr>"

definition n1 :: Node where
  "n1 = \<lparr>Node_Name = ''n1'', Node_APIVersion = ''v1'', Unschedulable = True\<rparr>"

definition p1 :: Pod where
  "p1 = \<lparr>Namespace = ''prod'', Name = ''p1'', Labels = [''app'' \<mapsto> ''x''], Host = ''n1''\<rparr>"

definition p2 :: Pod where
  "p2 = \<lparr>Namespace = ''prod'', Name = ''p2'', Labels = [''app'' \<mapsto> ''y''], Host = ''n1''\<rparr>"

definition rc1 :: ReplicationController where
  "rc1 = \<lparr>RC_Namespace = ''infra'', RC_Name = ''rc1'', Selector = [''app'' \<mapsto> ''x'']\<rparr>"

definition rc0 :: ReplicationController where
  "rc0 = \<lparr>RC_Namespace = ''infra'', RC_Name = ''rc0'', Selector = Map.empty\<rparr>"

definition w0 :: "(Pod list, string) world" where
  "w0 = \<lparr>cluster = [p1, p2], trace = []\<rparr>"

definition memEvacuate ::
  "ReplicationController list \<Rightarrow> string list \<Rightarrow> string option \<Rightarrow>
     (Pod list, string) EvacuateOptions" where
  "memEvacuate rcs locked printerError =
     NewEvacuateOptions (memOptions [n0, n1] rcs locked printerError)"

section \<open>Properties of the pod loop\<close>


subsection \<open>One pass of the loop body\<close>

lemma emit_simps:
  "cluster (emit ev w) = cluster w"
  "trace (emit ev w) = trace w @ [ev]"
  by (simp_all add: emit_def)

lemma podBody_deleteCalls:
  "deleteCalls (trace (snd (podBody e node rcs d pod st))) =
     deleteCalls (trace (snd st)) @ (if foundrc rcs pod \<or> Force e then [deleteOf d pod] else [])"
  by (cases st)
    (simp add: podBody_def printPod_def deletePod_def deleteCalls_def deleteOf_def emit_simps
      split: prod.splits option.splits)

lemma podBody_outputs:
  "outputs (trace (snd (podBody e node rcs d pod st))) =
     outputs (trace (snd st)) @
       (if firstPod (fst st) then [ErrWriterPrint (banner node), PrintObjWithHeaders pod]
        else [PrintObjNoHeaders pod])"
  by (cases st)
    (simp add: podBody_def printPod_def deletePod_def outputs_def emit_simps
      split: prod.splits option.splits)

lemma podBody_firstPod: "\<not> firstPod (fst (podBody e node rcs d pod st))"
  by (cases st)
    (simp add: podBody_def printPod_def deletePod_def split: prod.splits option.splits)

lemma podBody_numPodsWithNoRC:
  "numPodsWithNoRC (fst (podBody e node rcs d pod st)) =
     numPodsWithNoRC (fst st) + (if foundrc rcs pod \<or> Force e then 0 else 1)"
  by (cases st)
    (simp add: podBody_def printPod_def deletePod_def split: prod.splits option.splits)

lemma podBody_errList:
  "\<exists>es. errList (fst (podBody e node rcs d pod st)) = errList (fst st) @ map External es"
proof (cases st)
  case (Pair vars w)
  show ?thesis
  proof (cases "foundrc rcs pod \<or> Force e")
    case False
    then have "errList (fst (podBody e node rcs d pod st)) = errList (fst st) @ map External []"
      using Pair by (simp add: podBody_def printPod_def deletePod_def)
    then show ?thesis by blast
  next
    case True
    obtain r c where del:
      "Pods_Delete (Kclient (Options e)) (cluster (snd (printPod node pod st)))
         (Namespace pod) (Name pod) d = (r, c)"
      by (cases "Pods_Delete (Kclient (Options e)) (cluster (snd (printPod node pod st)))
         (Namespace pod) (Name pod) d")
    show ?thesis
    proof (cases r)
      case None
      then have "errList (fst (podBody e node rcs d pod st)) = errList (fst st) @ map External []"
        using Pair True del
        by (auto simp add: podBody_def printPod_def deletePod_def split: if_splits)
      then show ?thesis by blast
    next
      case (Some err)
      then have "errList (fst (podBody e node rcs d pod st)) = errList (fst st) @ map External [err]"
        using Pair True del
        by (auto simp add: podBody_def printPod_def deletePod_def split: if_splits)
      then show ?thesis by blast
    qed
  qed
qed

subsection \<open>The whole loop\<close>

lemma podsLoop_append:
  "podsLoop e node rcs d (ps @ qs) st = podsLoop e node rcs d qs (podsLoop e node rcs d ps st)"
  by (induction ps arbitrary: st) simp_all

lemma podsLoop_deleteCalls:
  "deleteCalls (trace (snd (podsLoop e node rcs d pods st))) =
     deleteCalls (trace (snd st)) @
       map (deleteOf d) (filter (\<lambda>pod. foundrc rcs pod \<or> Force e) pods)"
  by (induction pods arbitrary: st) (simp_all add: podBody_deleteCalls)

lemma podsLoop_outputs_rest:
  "\<not> firstPod (fst st) \<Longrightarrow>
   outputs (trace (snd (podsLoop e node rcs d pods st))) =
     outputs (trace (snd st)) @ map PrintObjNoHeaders pods"
  by (induction pods arbitrary: st) (simp_all add: podBody_outputs podBody_firstPod)

lemma podsLoop_outputs_first:
  "firstPod (fst st) \<Longrightarrow>
   outputs (trace (snd (podsLoop e node rcs d (pod # pods) st))) =
     outputs (trace (snd st)) @
       ErrWriterPrint (banner node) # PrintObjWithHeaders pod # map PrintObjNoHeaders pods"
  by (simp add: podsLoop_outputs_rest podBody_outputs podBody_firstPod)

lemma podsLoop_numPodsWithNoRC:
  "numPodsWithNoRC (fst (podsLoop e node rcs d pods st)) =
     numPodsWithNoRC (fst st) + length (filter (\<lambda>pod. \<not> (foundrc rcs pod \<or> Force e)) pods)"
  by (induction pods arbitrary: st) (simp_all add: podBody_numPodsWithNoRC)

lemma podsLoop_errList:
  "\<exists>es. errList (fst (podsLoop e node rcs d pods st)) = errList (fst st) @ map External es"
proof (induction pods arbitrary: st)
  case Nil
  have "errList (fst st) = errList (fst st) @ map External []" by simp
  then show ?case by (simp del: append_Nil2 map_is_Nil_conv) 
next
  case (Cons pod pods)
  obtain es1 where e1:
    "errList (fst (podBody e node rcs d pod st)) = errList (fst st) @ map External es1"
    using podBody_errList by blast
  obtain es2 where e2:
    "errList (fst (podsLoop e node rcs d pods (podBody e node rcs d pod st))) =
       errList (fst (podBody e node rcs d pod st)) @ map External es2"
    using Cons.IH by blast
  have "errList (fst (podsLoop e node rcs d (pod # pods) st)) =
          errList (fst st) @ map External (es1 @ es2)"
    using e1 e2 by simp
  then show ?case by blast
qed

subsection \<open>From the call to the loop\<close>

lemma RunEvacuate_execute:
  assumes "\<not> DryRun e" and "Unschedulable node"
    and "labels_Parse (Options e) (PodSelector (Options e)) = Inr ls"
    and "Pods_List (Kclient (Options e)) (cluster w) NamespaceAll ls
           (GetPodHostFieldLabel (Options e) (Node_APIVersion node), Node_Name node) = Inr pods"
    and "ReplicationControllers_List (Kclient (Options e)) (cluster w) NamespaceAll = Inr rcs"
    and "GetPrintersByResource (Options e) = None"
  shows "RunEvacuate e node w =
           finish (podsLoop e node rcs (makeDeleteOptions e) pods (initVars, listed e node ls w))"
  using assms by (simp add: RunEvacuate_def listed_def initVars_def emit_simps)

lemma finish_errorsOf:
  "errorsOf (fst (finish st)) =
     errList (fst st) @ (if numPodsWithNoRC (fst st) > 0 then [UnsafePodsRemain] else [])"
  by (cases st) (simp add: finish_def NewAggregate_def Let_def)

lemma finish_world: "snd (finish st) = snd st"
  by (cases st) (simp add: finish_def Let_def)

lemma listed_simps:
  "cluster (listed e node ls w) = cluster w"
  "deleteCalls (trace (listed e node ls w)) = deleteCalls (trace w)"
  "outputs (trace (listed e node ls w)) = outputs (trace w)"
  by (simp_all add: listed_def emit_simps deleteCalls_def outputs_def)



subsection \<open>Running the small cluster\<close>

lemmas mem_defs = memEvacuate_def w0_def n0_def n1_def p1_def p2_def rc1_def rc0_def
  memOptions_def memClient_def NewEvacuateOptions_def

lemmas run_defs = RunEvacuate_def ListPodsOptions_Run_def runListPods_def finish_def podBody_def
  printPod_def deletePod_def emit_def makeDeleteOptions_def NewAggregate_def Matches_def
  NamespaceAll_def banner_def initVars_def listed_def

subsection \<open>Read-only steps\<close>

lemma onlyReads_iff:
  "onlyReads w w' \<longleftrightarrow>
     cluster w' = cluster w \<and> (\<exists>new. trace w' = trace w @ new \<and> list_all isReadOnly new)"
proof
  assume a: "onlyReads w w'"
  then have "trace w' = trace w @ drop (length (trace w)) (trace w')"
    unfolding onlyReads_def by (metis append_take_drop_id)
  with a show "cluster w' = cluster w \<and> (\<exists>new. trace w' = trace w @ new \<and> list_all isReadOnly new)"
    unfolding onlyReads_def by blast
next
  assume "cluster w' = cluster w \<and> (\<exists>new. trace w' = trace w @ new \<and> list_all isReadOnly new)"
  then show "onlyReads w w'" unfolding onlyReads_def by auto
qed

lemma onlyReads_refl: "onlyReads w w"
  by (simp add: onlyReads_def)

lemma onlyReads_trans: "onlyReads w w' \<Longrightarrow> onlyReads w' w'' \<Longrightarrow> onlyReads w w''"
  unfolding onlyReads_iff by auto

lemma onlyReads_emit: "isReadOnly ev \<Longrightarrow> onlyReads w (emit ev w)"
  by (simp add: onlyReads_def emit_def)

lemma onlyReads_deleteCalls: "onlyReads w w' \<Longrightarrow> deleteCalls (trace w') = deleteCalls (trace w)"
proof -
  have r: "list_all isReadOnly new \<Longrightarrow> filter isDelete new = []" for new :: "'b event list"
  proof (induction new)
    case Nil
    then show ?case by simp
  next
    case (Cons ev new)
    then show ?case by (cases ev) simp_all
  qed
  assume "onlyReads w w'"
  then show ?thesis unfolding onlyReads_iff deleteCalls_def using r by auto
qed

lemma printPods_onlyReads: "onlyReads w (printPods first pods w)"
proof (induction pods arbitrary: first w)
  case Nil
  show ?case by (simp add: onlyReads_refl)
next
  case (Cons pod pods)
  have "onlyReads w (emit (if first then PrintObjWithHeaders pod else PrintObjNoHeaders pod) w)"
    by (rule onlyReads_emit) simp
  then show ?case using Cons.IH onlyReads_trans by fastforce
qed

lemma runListPods_onlyReads: "onlyReads w (snd (runListPods opts node w))"
proof (cases "labels_Parse opts (PodSelector opts)")
  case (Inl err)
  then show ?thesis by (simp add: runListPods_def onlyReads_refl)
next
  case (Inr ls)
  let ?fs = "(GetPodHostFieldLabel opts (Node_APIVersion node), Node_Name node)"
  let ?w1 = "emit (PodsListCall NamespaceAll ls ?fs) w"
  have w1: "onlyReads w ?w1" by (rule onlyReads_emit) simp
  show ?thesis
  proof (cases "Pods_List (Kclient opts) (cluster ?w1) NamespaceAll ls ?fs")
    case (Inl err)
    then show ?thesis using Inr w1 by (simp add: runListPods_def Let_def)
  next
    case (Inr pods)
    have "onlyReads w (printPods True pods ?w1)"
      using w1 printPods_onlyReads onlyReads_trans by blast
    then show ?thesis using Inr \<open>labels_Parse opts (PodSelector opts) = Inr ls\<close>
      by (simp add: runListPods_def Let_def)
  qed
qed

lemma listNodes_onlyReads: "onlyReads (snd st) (snd (listNodes opts nodes st))"
proof (induction nodes arbitrary: st)
  case Nil
  show ?case by (simp add: onlyReads_refl)
next
  case (Cons node nodes)
  obtain errs w where st: "st = (errs, w)" by (cases st)
  obtain r w' where r: "runListPods opts node w = (r, w')" by (cases "runListPods opts node w")
  have step: "onlyReads w w'" using runListPods_onlyReads [of w opts node] r by simp
  show ?case
  proof (cases r)
    case None
    have "onlyReads w' (snd (listNodes opts nodes (errs, w')))" using Cons.IH [of "(errs, w')"] by simp
    then show ?thesis using st r None step onlyReads_trans by fastforce
  next
    case (Some err)
    have "onlyReads w' (snd (listNodes opts nodes (errs @ [err], w')))"
      using Cons.IH [of "(errs @ [err], w')"] by simp
    then show ?thesis using st r Some step onlyReads_trans by fastforce
  qed
qed

lemma ListPodsOptions_Run_onlyReads: "onlyReads w (snd (ListPodsOptions_Run opts w))"
proof (cases "GetNodes opts")
  case (Inl err)
  then show ?thesis by (simp add: ListPodsOptions_Run_def onlyReads_refl)
next
  case (Inr nodes)
  have "onlyReads w (snd (listNodes opts nodes ([], w)))"
    using listNodes_onlyReads [of "([], w)" opts nodes] by simp
  then show ?thesis using Inr
    by (cases "listNodes opts nodes ([], w)") (simp add: ListPodsOptions_Run_def)
qed


subsection \<open>More on the loop\<close>

lemma podBody_trace_grows: "set (trace (snd st)) \<subseteq> set (trace (snd (podBody e node rcs d pod st)))"
  by (cases st)
    (auto simp add: podBody_def printPod_def deletePod_def emit_simps
      split: prod.splits option.splits if_splits)

lemma podsLoop_trace_grows:
  "set (trace (snd st)) \<subseteq> set (trace (snd (podsLoop e node rcs d pods st)))"
proof (induction pods arbitrary: st)
  case Nil
  show ?case by simp
next
  case (Cons pod pods)
  have "set (trace (snd st)) \<subseteq> set (trace (snd (podBody e node rcs d pod st)))"
    by (rule podBody_trace_grows)
  also have "\<dots> \<subseteq> set (trace (snd (podsLoop e node rcs d pods (podBody e node rcs d pod st))))"
    by (rule Cons.IH)
  finally show ?case by simp
qed

lemma podsLoop_errList_grows:
  "set (errList (fst st)) \<subseteq> set (errList (fst (podsLoop e node rcs d pods st)))"
  using podsLoop_errList [of e node rcs d pods st] by auto

lemma podBody_failed_delete:
  assumes "foundrc rcs pod \<or> Force e"
    and "Pods_Delete (Kclient (Options e)) (cluster (snd st)) (Namespace pod) (Name pod) d =
           (Some err, c)"
  shows "podBody e node rcs d pod st =
           (fst (printPod node pod st)\<lparr>errList := errList (fst st) @ [External err]\<rparr>,
            emit (GlogErrorf pod (External err))
              (emit (deleteOf d pod) (snd (printPod node pod st)\<lparr>cluster := c\<rparr>)))"
  using assms
  by (cases st)
    (auto simp add: podBody_def printPod_def deletePod_def deleteOf_def emit_simps)

lemma count_unique_key:
  "x \<in> set xs \<Longrightarrow> distinct (map f xs) \<Longrightarrow>
     length (filter (\<lambda>y. f y = f x \<and> P y) xs) = (if P x then 1 else 0)"
proof (induction xs)
  case Nil
  then show ?case by simp
next
  case (Cons a xs)
  show ?case
  proof (cases "f a = f x")
    case True
    have notin: "f a \<notin> f ` set xs" using Cons.prems(2) by simp
    then have xa: "x = a" using Cons.prems(1) True by force
    have "filter (\<lambda>y. f y = f a \<and> P y) xs = []"
      using notin by (force simp: filter_empty_conv image_iff)
    then show ?thesis unfolding xa by simp
  next
    case False
    then have "x \<in> set xs" using Cons.prems(1) by auto
    then show ?thesis using Cons.IH Cons.prems(2) False by simp
  qed
qed

lemma deleteOf_eq: "(deleteOf d q = deleteOf d p) = ((Namespace q, Name q) = (Namespace p, Name p))"
  by (auto simp add: deleteOf_def)

lemma count_deletes:
  assumes "pod \<in> set pods" and "distinct (map (\<lambda>p. (Namespace p, Name p)) pods)"
  shows "length (filter (\<lambda>ev. ev = deleteOf d pod) (map (deleteOf d) (filter P pods))) =
           (if P pod then 1 else 0)"
proof -
  have "length (filter (\<lambda>ev. ev = deleteOf d pod) (map (deleteOf d) (filter P pods))) =
          length (filter (\<lambda>q. (Namespace q, Name q) = (Namespace pod, Name pod) \<and> P q) pods)"
    by (simp add: filter_map comp_def deleteOf_eq conj_commute)
  also have "\<dots> = (if P pod then 1 else 0)"
    using count_unique_key [OF assms(1), of "\<lambda>p. (Namespace p, Name p)" P] assms(2) by simp
  finally show ?thesis .
qed

subsection \<open>The node loop\<close>

lemma nodesLoop_outcomes:
  "nodesLoop e nodes (errs, w) =
     (errs @ concat (map (\<lambda>r. case r of None \<Rightarrow> [] | Some err \<Rightarrow> [err]) (nodeOutcomes e nodes w)),
      afterNodes e nodes w)"
proof (induction nodes arbitrary: errs w)
  case Nil
  show ?case by simp
next
  case (Cons node nodes)
  obtain r w' where r: "RunEvacuate e node w = (r, w')" by (cases "RunEvacuate e node w")
  show ?case using r Cons.IH by (cases r) simp_all
qed

lemma nodeOutcomes_append:
  "nodeOutcomes e (xs @ ys) w = nodeOutcomes e xs w @ nodeOutcomes e ys (afterNodes e xs w)"
  by (induction xs arbitrary: w) simp_all

lemma length_nodeOutcomes: "length (nodeOutcomes e nodes w) = length nodes"
  by (induction nodes arbitrary: w) simp_all

lemma collected_empty:
  "concat (map (\<lambda>r. case r of None \<Rightarrow> [] | Some err \<Rightarrow> [err]) rs) = [] \<longleftrightarrow> (\<forall>r \<in> set rs. r = None)"
  by (induction rs) (auto split: option.splits)

section \<open>The claims\<close>

text \<open>
  C1, as stated, fails. The claim is that a node whose unschedulable flag is false is
  refused with \<open>NodeNotUnschedulable\<close> under every flag configuration. With \<open>dryRun\<close>
  set, evacuating the schedulable node \<open>n0\<close> returns nil: the dry-run branch returns
  before the gate is looked at.
\<close>

theorem gate_bypassed_by_dry_run:
  "\<not> Unschedulable n0 \<and>
   fst (RunEvacuate (memEvacuate [rc1] [] None\<lparr>DryRun := True\<rparr>) n0 w0) = None \<and>
   fst (RunEvacuate (memEvacuate [rc1] [] None\<lparr>DryRun := True\<rparr>) n0 w0) \<noteq>
     Some (NodeNotUnschedulable (Node_Name n0))"
  by (simp add: mem_defs run_defs)

text \<open>
  C1, amended. For a node whose unschedulable flag is false, and for every \<open>force\<close> and
  grace period: with \<open>dryRun\<close> off the call returns \<open>NodeNotUnschedulable\<close> and leaves
  the world as it was, so it issues no call at all and in particular no delete call; with
  \<open>dryRun\<close> on the call is the listing operation and the gate is not consulted.
\<close>

theorem gate_when_not_dry_run:
  "\<not> Unschedulable node \<Longrightarrow>
     RunEvacuate e node w =
       (if DryRun e then ListPodsOptions_Run (Options e) w
        else (Some (NodeNotUnschedulable (Node_Name node)), w)) \<and>
     (\<not> DryRun e \<longrightarrow>
        trace (snd (RunEvacuate e node w)) = trace w \<and>
        cluster (snd (RunEvacuate e node w)) = cluster w \<and>
        deleteCalls (trace (snd (RunEvacuate e node w))) = deleteCalls (trace w))"
  by (simp add: RunEvacuate_def)

text \<open>
  C1, amended, on the small cluster: \<open>n0\<close> is schedulable, and with \<open>force\<close> set and a
  grace period of 0 the call is refused and nothing is deleted.
\<close>

theorem gate_when_not_dry_run_witness:
  "\<not> Unschedulable n0 \<and> \<not> DryRun (memEvacuate [rc1] [] None\<lparr>Force := True, GracePeriod := 0\<rparr>) \<and>
   RunEvacuate (memEvacuate [rc1] [] None\<lparr>Force := True, GracePeriod := 0\<rparr>) n0 w0 =
     (Some (NodeNotUnschedulable ''n0''), w0) \<and>
   deleteCalls (trace (snd (RunEvacuate (memEvacuate [rc1] [] None\<lparr>Force := True, GracePeriod := 0\<rparr>) n0 w0))) = []"
proof -
  have h: "\<not> Unschedulable n0" by (simp add: n0_def)
  have d: "\<not> DryRun (memEvacuate [rc1] [] None\<lparr>Force := True, GracePeriod := 0\<rparr>)"
    by (simp add: memEvacuate_def NewEvacuateOptions_def)
  show ?thesis
    using h d gate_when_not_dry_run [OF h, of "memEvacuate [rc1] [] None\<lparr>Force := True, GracePeriod := 0\<rparr>" w0]
    by (simp add: n0_def w0_def deleteCalls_def)
qed

text \<open>
  C2, as stated, fails. The claim asks for the gate and the two listings only. On the small
  cluster with a printer lookup that fails, the run is not a dry run, \<open>n1\<close> passes the
  gate, both listings succeed and \<open>p1\<close> has a controller, and yet no delete call is
  issued: \<open>RunEvacuate\<close> returns the printer error before the loop.
\<close>

theorem no_printers_no_deletes:
  "\<not> DryRun (memEvacuate [rc1] [] (Some ''no printer'')) \<and> Unschedulable n1 \<and>
   Pods_List (Kclient (Options (memEvacuate [rc1] [] (Some ''no printer'')))) (cluster w0)
     NamespaceAll '''' (''spec.host'', ''n1'') = Inr [p1, p2] \<and>
   ReplicationControllers_List (Kclient (Options (memEvacuate [rc1] [] (Some ''no printer''))))
     (cluster w0) NamespaceAll = Inr [rc1] \<and>
   foundrc [rc1] p1 \<and>
   deleteCalls (trace (snd (RunEvacuate (memEvacuate [rc1] [] (Some ''no printer'')) n1 w0))) = [] \<and>
   fst (RunEvacuate (memEvacuate [rc1] [] (Some ''no printer'')) n1 w0) = Some (External ''no printer'')"
  by (simp add: mem_defs run_defs deleteCalls_def)

text \<open>
  C2, amended. In a non-dry-run evacuation of a node that passes the gate, whose listings
  succeed (the pod selector parses, the pods and the controllers are returned) and whose pod
  printers are obtained, the delete calls issued are, in listing order, one for each target
  pod that is controller-backed or any target pod if \<open>force\<close> is set, and none for a
  standalone pod when \<open>force\<close> is off. Where the listed pods have distinct
  (namespace, name) keys this is exactly one, respectively zero, delete call per pod.
  Each call carries the configured grace period, whose default is 30.
\<close>

theorem delete_calls_exact:
  assumes "\<not> DryRun e" and "Unschedulable node"
    and "labels_Parse (Options e) (PodSelector (Options e)) = Inr ls"
    and "Pods_List (Kclient (Options e)) (cluster w) NamespaceAll ls
           (GetPodHostFieldLabel (Options e) (Node_APIVersion node), Node_Name node) = Inr pods"
    and "ReplicationControllers_List (Kclient (Options e)) (cluster w) NamespaceAll = Inr rcs"
    and "GetPrintersByResource (Options e) = None"
  shows "deleteCalls (trace (snd (RunEvacuate e node w))) =
           deleteCalls (trace w) @
             map (deleteOf (makeDeleteOptions e)) (filter (\<lambda>pod. foundrc rcs pod \<or> Force e) pods) \<and>
         (distinct (map (\<lambda>p. (Namespace p, Name p)) pods) \<longrightarrow>
            (\<forall>pod \<in> set pods.
               length (filter (\<lambda>ev. ev = deleteOf (makeDeleteOptions e) pod)
                         (deleteCalls (trace (snd (RunEvacuate e node w))))) =
               length (filter (\<lambda>ev. ev = deleteOf (makeDeleteOptions e) pod) (deleteCalls (trace w))) +
                 (if foundrc rcs pod \<or> Force e then 1 else 0))) \<and>
         GracePeriodSeconds (makeDeleteOptions e) = Some (GracePeriod e) \<and>
         GracePeriod (NewEvacuateOptions (Options e)) = 30"
proof -
  have calls: "deleteCalls (trace (snd (RunEvacuate e node w))) =
           deleteCalls (trace w) @
             map (deleteOf (makeDeleteOptions e)) (filter (\<lambda>pod. foundrc rcs pod \<or> Force e) pods)"
    unfolding RunEvacuate_execute [OF assms]
    by (simp add: finish_world podsLoop_deleteCalls listed_simps)
  have "length (filter (\<lambda>ev. ev = deleteOf (makeDeleteOptions e) pod)
                  (deleteCalls (trace (snd (RunEvacuate e node w))))) =
        length (filter (\<lambda>ev. ev = deleteOf (makeDeleteOptions e) pod) (deleteCalls (trace w))) +
          (if foundrc rcs pod \<or> Force e then 1 else 0)"
    if "distinct (map (\<lambda>p. (Namespace p, Name p)) pods)" and "pod \<in> set pods" for pod
    unfolding calls filter_append length_append
    by (simp only: count_deletes [OF that(2) that(1)])
  then show ?thesis using calls
    by (simp add: makeDeleteOptions_def NewEvacuateOptions_def)
qed

text \<open>
  C2, amended, on the small cluster with the default options: \<open>p1\<close> is deleted once with
  grace period 30, \<open>p2\<close> is not deleted.
\<close>

theorem delete_calls_exact_witness:
  "\<not> DryRun (memEvacuate [rc1] [] None) \<and> Unschedulable n1 \<and>
   distinct (map (\<lambda>p. (Namespace p, Name p)) [p1, p2]) \<and> p1 \<in> set [p1, p2] \<and> p2 \<in> set [p1, p2] \<and>
   deleteCalls (trace (snd (RunEvacuate (memEvacuate [rc1] [] None) n1 w0))) =
     [PodsDeleteCall ''prod'' ''p1'' \<lparr>GracePeriodSeconds = Some 30\<rparr>] \<and>
   length (filter (\<lambda>ev. ev = deleteOf (makeDeleteOptions (memEvacuate [rc1] [] None)) p1)
     (deleteCalls (trace (snd (RunEvacuate (memEvacuate [rc1] [] None) n1 w0))))) = 1 \<and>
   length (filter (\<lambda>ev. ev = deleteOf (makeDeleteOptions (memEvacuate [rc1] [] None)) p2)
     (deleteCalls (trace (snd (RunEvacuate (memEvacuate [rc1] [] None) n1 w0))))) = 0"
proof -
  let ?e = "memEvacuate [rc1] [] None"
  have h1: "\<not> DryRun ?e" by (simp add: mem_defs)
  have h2: "Unschedulable n1" by (simp add: n1_def)
  have h3: "labels_Parse (Options ?e) (PodSelector (Options ?e)) = Inr ''''" by (simp add: mem_defs)
  have h4: "Pods_List (Kclient (Options ?e)) (cluster w0) NamespaceAll ''''
           (GetPodHostFieldLabel (Options ?e) (Node_APIVersion n1), Node_Name n1) = Inr [p1, p2]"
    by (simp add: mem_defs)
  have h5: "ReplicationControllers_List (Kclient (Options ?e)) (cluster w0) NamespaceAll = Inr [rc1]"
    by (simp add: mem_defs)
  have h6: "GetPrintersByResource (Options ?e) = None" by (simp add: mem_defs)
  show ?thesis
    using h1 h2 delete_calls_exact [OF h1 h2 h3 h4 h5 h6]
    by (simp add: mem_defs Matches_def deleteOf_def makeDeleteOptions_def deleteCalls_def)
qed

text \<open>
  C3. For a node evacuated without \<open>force\<close>, the node's error list holds
  \<open>UnsafePodsRemain\<close> exactly once if some listed pod has no controller, however many such
  pods there are, and not at all if every listed pod has one. Its message is the remediation
  text of the source.
\<close>

theorem unsafe_pods_remain_once:
  assumes "\<not> DryRun e" and "Unschedulable node"
    and "labels_Parse (Options e) (PodSelector (Options e)) = Inr ls"
    and "Pods_List (Kclient (Options e)) (cluster w) NamespaceAll ls
           (GetPodHostFieldLabel (Options e) (Node_APIVersion node), Node_Name node) = Inr pods"
    and "ReplicationControllers_List (Kclient (Options e)) (cluster w) NamespaceAll = Inr rcs"
    and "GetPrintersByResource (Options e) = None"
    and "\<not> Force e"
  shows "count_list (errorsOf (fst (RunEvacuate e node w))) UnsafePodsRemain =
           (if \<exists>pod \<in> set pods. \<not> foundrc rcs pod then 1 else 0) \<and>
         Error UnsafePodsRemain =
           ''Unable to evacuate some pods because they are not backed by replication controller.'' @
           [CHR 0x0A] @ ''Suggested options:'' @ [CHR 0x0A] @
           ''- You can list bare pods in json/yaml format using '' @ [CHR 0x27] @
           ''--list-pods -o json|yaml'' @ [CHR 0x27] @ [CHR 0x0A] @
           ''- Force deletion of bare pods with --force option to --evacuate'' @ [CHR 0x0A] @
           ''- Optionally recreate these bare pods by massaging the json/yaml output from above list pods'' @
           [CHR 0x0A]"
proof -
  let ?st = "podsLoop e node rcs (makeDeleteOptions e) pods (initVars, listed e node ls w)"
  obtain es where es: "errList (fst ?st) = map External es"
    using podsLoop_errList [of e node rcs "makeDeleteOptions e" pods "(initVars, listed e node ls w)"]
    by (auto simp add: initVars_def)
  have none: "count_list (map External es) UnsafePodsRemain = 0"
    by (induction es) simp_all
  have num: "numPodsWithNoRC (fst ?st) = length (filter (\<lambda>pod. \<not> foundrc rcs pod) pods)"
    using assms(7) by (simp add: podsLoop_numPodsWithNoRC initVars_def)
  have pos: "(0 < length (filter (\<lambda>pod. \<not> foundrc rcs pod) pods)) = (\<exists>pod \<in> set pods. \<not> foundrc rcs pod)"
    by (simp add: filter_empty_conv)
  have "count_list (errorsOf (fst (RunEvacuate e node w))) UnsafePodsRemain =
           (if \<exists>pod \<in> set pods. \<not> foundrc rcs pod then 1 else 0)"
    unfolding RunEvacuate_execute [OF assms(1-6)] finish_errorsOf es num pos
    by (simp add: none)
  then show ?thesis by simp
qed

text \<open>
  C3 on the small cluster without any controller: \<open>p1\<close> and \<open>p2\<close> are both skipped,
  and the error appears once.
\<close>

theorem unsafe_pods_remain_once_witness:
  "\<not> DryRun (memEvacuate [] [] None) \<and> Unschedulable n1 \<and> \<not> Force (memEvacuate [] [] None) \<and>
   \<not> foundrc [] p1 \<and> \<not> foundrc [] p2 \<and>
   count_list (errorsOf (fst (RunEvacuate (memEvacuate [] [] None) n1 w0))) UnsafePodsRemain = 1"
proof -
  let ?e = "memEvacuate [] [] None"
  have h1: "\<not> DryRun ?e" by (simp add: mem_defs)
  have h2: "Unschedulable n1" by (simp add: n1_def)
  have h3: "labels_Parse (Options ?e) (PodSelector (Options ?e)) = Inr ''''" by (simp add: mem_defs)
  have h4: "Pods_List (Kclient (Options ?e)) (cluster w0) NamespaceAll ''''
           (GetPodHostFieldLabel (Options ?e) (Node_APIVersion n1), Node_Name n1) = Inr [p1, p2]"
    by (simp add: mem_defs)
  have h5: "ReplicationControllers_List (Kclient (Options ?e)) (cluster w0) NamespaceAll = Inr []"
    by (simp add: mem_defs)
  have h6: "GetPrintersByResource (Options ?e) = None" by (simp add: mem_defs)
  have h7: "\<not> Force ?e" by (simp add: mem_defs)
  show ?thesis
    using h1 h2 h7 unsafe_pods_remain_once [OF h1 h2 h3 h4 h5 h6 h7]
    by auto
qed

text \<open>
  C4. Once the nodes are resolved, \<open>Run\<close> evacuates them one after the other in input
  order, each in the world its predecessors left and whatever they returned; the errors of
  the nodes are collected in that order into one aggregate; the result is nil exactly when
  every node returned nil, and otherwise a non-empty aggregate holding exactly the errors
  the nodes returned.
\<close>

theorem batch_collects_every_node:
  assumes "GetNodes (Options e) = Inr nodes"
  shows "fst (Run e w) =
           NewAggregate (concat (map (\<lambda>r. case r of None \<Rightarrow> [] | Some err \<Rightarrow> [err])
                                   (nodeOutcomes e nodes w))) \<and>
         snd (Run e w) = afterNodes e nodes w \<and>
         length (nodeOutcomes e nodes w) = length nodes \<and>
         (\<forall>before node after. nodes = before @ node # after \<longrightarrow>
            nodeOutcomes e nodes w ! length before =
              fst (RunEvacuate e node (afterNodes e before w))) \<and>
         (fst (Run e w) = None \<longleftrightarrow> (\<forall>r \<in> set (nodeOutcomes e nodes w). r = None)) \<and>
         (\<forall>err. fst (Run e w) = Some err \<longrightarrow>
            (\<exists>errs. err = Aggregate errs \<and> errs \<noteq> [] \<and>
               (\<forall>x. x \<in> set errs \<longleftrightarrow> Some x \<in> set (nodeOutcomes e nodes w))))"
proof -
  let ?errs = "concat (map (\<lambda>r. case r of None \<Rightarrow> [] | Some err \<Rightarrow> [err]) (nodeOutcomes e nodes w))"
  have run: "Run e w = (NewAggregate ?errs, afterNodes e nodes w)"
    using assms by (simp add: Run_def nodesLoop_outcomes)
  have nth: "nodeOutcomes e nodes w ! length before = fst (RunEvacuate e node (afterNodes e before w))"
    if "nodes = before @ node # after" for before node after
    unfolding that nodeOutcomes_append
    by (simp add: nth_append length_nodeOutcomes)
  have nil: "(NewAggregate ?errs = None) = (\<forall>r \<in> set (nodeOutcomes e nodes w). r = None)"
    using collected_empty [of "nodeOutcomes e nodes w"] by (simp add: NewAggregate_def)
  have mem: "x \<in> set ?errs \<longleftrightarrow> Some x \<in> set (nodeOutcomes e nodes w)" for x
    by (auto split: option.splits)
  have some: "\<exists>errs. err = Aggregate errs \<and> errs \<noteq> [] \<and>
               (\<forall>x. x \<in> set errs \<longleftrightarrow> Some x \<in> set (nodeOutcomes e nodes w))"
    if "NewAggregate ?errs = Some err" for err
  proof -
    from that have "err = Aggregate ?errs \<and> ?errs \<noteq> []"
      by (auto simp add: NewAggregate_def split: if_splits)
    then show ?thesis using mem by blast
  qed
  show ?thesis
    unfolding run fst_conv snd_conv using nth nil some length_nodeOutcomes by blast
qed

text \<open>
  C4 on the small cluster with \<open>force\<close>: \<open>n0\<close> fails the gate, \<open>n1\<close> is still
  evacuated in full (the cluster ends empty), and the aggregate holds the error of \<open>n0\<close>
  only.
\<close>

theorem batch_collects_every_node_witness:
  "GetNodes (Options (memEvacuate [rc1] [] None\<lparr>Force := True\<rparr>)) = Inr [n0, n1] \<and>
   [n0, n1] = [] @ n0 # [n1] \<and>
   fst (Run (memEvacuate [rc1] [] None\<lparr>Force := True\<rparr>) w0) =
     Some (Aggregate [NodeNotUnschedulable ''n0'']) \<and>
   cluster (snd (Run (memEvacuate [rc1] [] None\<lparr>Force := True\<rparr>) w0)) = [] \<and>
   nodeOutcomes (memEvacuate [rc1] [] None\<lparr>Force := True\<rparr>) [n0, n1] w0 =
     [Some (NodeNotUnschedulable ''n0''), None]"
proof -
  let ?e = "memEvacuate [rc1] [] None\<lparr>Force := True\<rparr>"
  have h: "GetNodes (Options ?e) = Inr [n0, n1]" by (simp add: mem_defs)
  have o: "nodeOutcomes ?e [n0, n1] w0 = [Some (NodeNotUnschedulable ''n0''), None]"
    by (simp add: mem_defs run_defs)
  have a: "cluster (afterNodes ?e [n0, n1] w0) = []"
    by (simp add: mem_defs run_defs)
  show ?thesis
    using h o a batch_collects_every_node [OF h, of w0]
    by (simp add: NewAggregate_def)
qed

text \<open>
  C5. A pod is classified controller-backed exactly when some listed controller's selector,
  as a set of key/value pairs, is a subset of the pod's labels. The right-hand side reads
  nothing but selectors and labels.
\<close>

theorem classified_by_label_subset:
  "foundrc rcs pod \<longleftrightarrow> (\<exists>rc \<in> set rcs. Map.graph (Selector rc) \<subseteq> Map.graph (Labels pod))"
proof -
  have m: "Matches s l \<longleftrightarrow> Map.graph s \<subseteq> Map.graph l" for s l
    unfolding Matches_def Map.graph_def by (auto simp: dom_def)
  show ?thesis by (induction rcs) (simp_all add: m)
qed

text \<open>
  C5 on the small cluster: \<open>p1\<close> is selected by \<open>rc1\<close>, \<open>p2\<close> is not.
\<close>

theorem classified_by_label_subset_witness:
  "foundrc [rc1] p1 \<and> (\<exists>rc \<in> set [rc1]. Map.graph (Selector rc) \<subseteq> Map.graph (Labels p1)) \<and>
   \<not> foundrc [rc1] p2 \<and> \<not> (\<exists>rc \<in> set [rc1]. Map.graph (Selector rc) \<subseteq> Map.graph (Labels p2))"
proof -
  have f1: "foundrc [rc1] p1" by (simp add: mem_defs Matches_def)
  have f2: "\<not> foundrc [rc1] p2" by (simp add: mem_defs Matches_def)
  show ?thesis
    using f1 f2 classified_by_label_subset [of "[rc1]" p1] classified_by_label_subset [of "[rc1]" p2]
    by blast
qed

text \<open>
  C6. When the delete call of a listed pod fails, the loop body appends that error to the
  error list, the trace records the delete call followed by the log line, and the loop goes
  on with the pods listed after it: the error is in the node's error list, the log line is
  in the trace, and the delete calls of the node are those of all eligible pods, the ones
  after the failure included.
\<close>

theorem delete_failure_is_isolated:
  assumes "\<not> DryRun e" and "Unschedulable node"
    and "labels_Parse (Options e) (PodSelector (Options e)) = Inr ls"
    and "Pods_List (Kclient (Options e)) (cluster w) NamespaceAll ls
           (GetPodHostFieldLabel (Options e) (Node_APIVersion node), Node_Name node) =
           Inr (before @ pod # after)"
    and "ReplicationControllers_List (Kclient (Options e)) (cluster w) NamespaceAll = Inr rcs"
    and "GetPrintersByResource (Options e) = None"
    and "st = podsLoop e node rcs (makeDeleteOptions e) before (initVars, listed e node ls w)"
    and "foundrc rcs pod \<or> Force e"
    and "Pods_Delete (Kclient (Options e)) (cluster (snd st)) (Namespace pod) (Name pod)
           (makeDeleteOptions e) = (Some err, c)"
  shows "errList (fst (podBody e node rcs (makeDeleteOptions e) pod st)) =
           errList (fst st) @ [External err] \<and>
         trace (snd (podBody e node rcs (makeDeleteOptions e) pod st)) =
           trace (snd (printPod node pod st)) @
             [deleteOf (makeDeleteOptions e) pod, GlogErrorf pod (External err)] \<and>
         RunEvacuate e node w =
           finish (podsLoop e node rcs (makeDeleteOptions e) after
                     (podBody e node rcs (makeDeleteOptions e) pod st)) \<and>
         External err \<in> set (errorsOf (fst (RunEvacuate e node w))) \<and>
         GlogErrorf pod (External err) \<in> set (trace (snd (RunEvacuate e node w))) \<and>
         deleteCalls (trace (snd (RunEvacuate e node w))) =
           deleteCalls (trace w) @
             map (deleteOf (makeDeleteOptions e))
               (filter (\<lambda>pod. foundrc rcs pod \<or> Force e) (before @ pod # after))"
proof -
  let ?d = "makeDeleteOptions e"
  let ?body = "podBody e node rcs ?d pod st"
  let ?end = "podsLoop e node rcs ?d after ?body"
  have body: "?body =
           (fst (printPod node pod st)\<lparr>errList := errList (fst st) @ [External err]\<rparr>,
            emit (GlogErrorf pod (External err))
              (emit (deleteOf ?d pod) (snd (printPod node pod st)\<lparr>cluster := c\<rparr>)))"
    by (rule podBody_failed_delete [OF assms(8) assms(9)])
  have c1: "errList (fst ?body) = errList (fst st) @ [External err]"
    unfolding body by simp
  have c2: "trace (snd ?body) =
           trace (snd (printPod node pod st)) @ [deleteOf ?d pod, GlogErrorf pod (External err)]"
    unfolding body by (simp add: emit_simps)
  have c3: "RunEvacuate e node w = finish ?end"
    unfolding RunEvacuate_execute [OF assms(1-6)] podsLoop_append assms(7) by simp
  have "External err \<in> set (errList (fst ?body))" unfolding c1 by simp
  then have "External err \<in> set (errList (fst ?end))"
    using podsLoop_errList_grows [of ?body e node rcs ?d after] by blast
  then have c4: "External err \<in> set (errorsOf (fst (RunEvacuate e node w)))"
    unfolding c3 finish_errorsOf by simp
  have "GlogErrorf pod (External err) \<in> set (trace (snd ?body))" unfolding c2 by simp
  then have "GlogErrorf pod (External err) \<in> set (trace (snd ?end))"
    using podsLoop_trace_grows [of ?body e node rcs ?d after] by blast
  then have c5: "GlogErrorf pod (External err) \<in> set (trace (snd (RunEvacuate e node w)))"
    unfolding c3 finish_world .
  have c6: "deleteCalls (trace (snd (RunEvacuate e node w))) =
           deleteCalls (trace w) @
             map (deleteOf ?d) (filter (\<lambda>pod. foundrc rcs pod \<or> Force e) (before @ pod # after))"
    unfolding RunEvacuate_execute [OF assms(1-6)]
    by (simp add: finish_world podsLoop_deleteCalls listed_simps)
  show ?thesis using c1 c2 c3 c4 c5 c6 by blast
qed

text \<open>
  C6 on the small cluster with \<open>force\<close>, where deleting \<open>p1\<close> is forbidden: the failure
  is recorded and logged, and \<open>p2\<close> is deleted all the same.
\<close>

theorem delete_failure_is_isolated_witness:
  "\<not> DryRun (memEvacuate [rc1] [''p1''] None\<lparr>Force := True\<rparr>) \<and> Unschedulable n1 \<and>
   (foundrc [rc1] p1 \<or> Force (memEvacuate [rc1] [''p1''] None\<lparr>Force := True\<rparr>)) \<and>
   Pods_Delete (Kclient (Options (memEvacuate [rc1] [''p1''] None\<lparr>Force := True\<rparr>))) [p1, p2]
     ''prod'' ''p1'' \<lparr>GracePeriodSeconds = Some 30\<rparr> = (Some ''forbidden'', [p1, p2]) \<and>
   External ''forbidden'' \<in>
     set (errorsOf (fst (RunEvacuate (memEvacuate [rc1] [''p1''] None\<lparr>Force := True\<rparr>) n1 w0))) \<and>
   GlogErrorf p1 (External ''forbidden'') \<in>
     set (trace (snd (RunEvacuate (memEvacuate [rc1] [''p1''] None\<lparr>Force := True\<rparr>) n1 w0))) \<and>
   deleteCalls (trace (snd (RunEvacuate (memEvacuate [rc1] [''p1''] None\<lparr>Force := True\<rparr>) n1 w0))) =
     [PodsDeleteCall ''prod'' ''p1'' \<lparr>GracePeriodSeconds = Some 30\<rparr>,
      PodsDeleteCall ''prod'' ''p2'' \<lparr>GracePeriodSeconds = Some 30\<rparr>]"
proof -
  let ?e = "memEvacuate [rc1] [''p1''] None\<lparr>Force := True\<rparr>"
  have h1: "\<not> DryRun ?e" by (simp add: mem_defs)
  have h2: "Unschedulable n1" by (simp add: n1_def)
  have h3: "labels_Parse (Options ?e) (PodSelector (Options ?e)) = Inr ''''" by (simp add: mem_defs)
  have h4: "Pods_List (Kclient (Options ?e)) (cluster w0) NamespaceAll ''''
           (GetPodHostFieldLabel (Options ?e) (Node_APIVersion n1), Node_Name n1) =
           Inr ([] @ p1 # [p2])"
    by (simp add: mem_defs)
  have h5: "ReplicationControllers_List (Kclient (Options ?e)) (cluster w0) NamespaceAll = Inr [rc1]"
    by (simp add: mem_defs)
  have h6: "GetPrintersByResource (Options ?e) = None" by (simp add: mem_defs)
  have h7: "(initVars, listed ?e n1 '''' w0) =
              podsLoop ?e n1 [rc1] (makeDeleteOptions ?e) [] (initVars, listed ?e n1 '''' w0)"
    by simp
  have h8: "foundrc [rc1] p1 \<or> Force ?e" by (simp add: mem_defs)
  have h9: "Pods_Delete (Kclient (Options ?e)) (cluster (snd (initVars, listed ?e n1 '''' w0)))
              (Namespace p1) (Name p1) (makeDeleteOptions ?e) = (Some ''forbidden'', [p1, p2])"
    by (simp add: mem_defs listed_simps)
  note r = delete_failure_is_isolated [OF h1 h2 h3 h4 h5 h6 h7 h8 h9]
  have r1: "External ''forbidden'' \<in> set (errorsOf (fst (RunEvacuate ?e n1 w0)))"
    using r by blast
  have r2: "GlogErrorf p1 (External ''forbidden'') \<in> set (trace (snd (RunEvacuate ?e n1 w0)))"
    using r by blast
  have r3: "deleteCalls (trace (snd (RunEvacuate ?e n1 w0))) =
              deleteCalls (trace w0) @
                map (deleteOf (makeDeleteOptions ?e))
                  (filter (\<lambda>pod. foundrc [rc1] pod \<or> Force ?e) ([] @ p1 # [p2]))"
    using r by blast
  have r4: "deleteCalls (trace (snd (RunEvacuate ?e n1 w0))) =
     [PodsDeleteCall ''prod'' ''p1'' \<lparr>GracePeriodSeconds = Some 30\<rparr>,
      PodsDeleteCall ''prod'' ''p2'' \<lparr>GracePeriodSeconds = Some 30\<rparr>]"
    unfolding r3 by (simp add: mem_defs deleteOf_def makeDeleteOptions_def deleteCalls_def)
  have h10: "Pods_Delete (Kclient (Options ?e)) [p1, p2] ''prod'' ''p1''
               \<lparr>GracePeriodSeconds = Some 30\<rparr> = (Some ''forbidden'', [p1, p2])"
    by (simp add: mem_defs)
  show ?thesis using h1 h2 h8 h10 r1 r2 r4 by simp
qed

text \<open>
  C7. Under \<open>dryRun\<close> the call is the listing operation and nothing else, whatever
  \<open>force\<close> says and however the pods classify: the cluster is the one it was, no delete
  call is issued, and the trace only grows by pod listings and printed pods.
\<close>

theorem dry_run_only_reads:
  "DryRun e \<Longrightarrow>
     RunEvacuate e node w = ListPodsOptions_Run (Options e) w \<and>
     cluster (snd (RunEvacuate e node w)) = cluster w \<and>
     deleteCalls (trace (snd (RunEvacuate e node w))) = deleteCalls (trace w) \<and>
     onlyReads w (snd (RunEvacuate e node w))"
proof -
  assume d: "DryRun e"
  then have eq: "RunEvacuate e node w = ListPodsOptions_Run (Options e) w"
    by (simp add: RunEvacuate_def)
  have ro: "onlyReads w (snd (RunEvacuate e node w))"
    unfolding eq by (rule ListPodsOptions_Run_onlyReads)
  show ?thesis using eq ro onlyReads_deleteCalls [OF ro] by (simp add: onlyReads_def)
qed

text \<open>
  C7 on the small cluster, with \<open>dryRun\<close> and \<open>force\<close> both set: both pods stay.
\<close>

theorem dry_run_only_reads_witness:
  "DryRun (memEvacuate [rc1] [] None\<lparr>DryRun := True, Force := True\<rparr>) \<and>
   cluster (snd (RunEvacuate (memEvacuate [rc1] [] None\<lparr>DryRun := True, Force := True\<rparr>) n1 w0)) = [p1, p2] \<and>
   deleteCalls (trace (snd (RunEvacuate (memEvacuate [rc1] [] None\<lparr>DryRun := True, Force := True\<rparr>) n1 w0))) = []"
  using dry_run_only_reads [of "memEvacuate [rc1] [] None\<lparr>DryRun := True, Force := True\<rparr>" n1 w0,
      THEN conjunct2]
  by (simp add: memEvacuate_def NewEvacuateOptions_def w0_def deleteCalls_def)

text \<open>
  C8, as stated, fails. The claim is that in a non-dry-run execution every target pod is
  printed. On the small cluster with a printer lookup that fails, the run is not a dry run,
  \<open>n1\<close> passes the gate and \<open>p1\<close> and \<open>p2\<close> are listed as its target pods, and yet
  nothing reaches either output stream: \<open>RunEvacuate\<close> returns the printer error before
  the loop.
\<close>

theorem no_printers_no_output:
  "\<not> DryRun (memEvacuate [rc1] [] (Some ''no printer'')) \<and> Unschedulable n1 \<and>
   Pods_List (Kclient (Options (memEvacuate [rc1] [] (Some ''no printer'')))) (cluster w0)
     NamespaceAll '''' (''spec.host'', ''n1'') = Inr [p1, p2] \<and>
   outputs (trace (snd (RunEvacuate (memEvacuate [rc1] [] (Some ''no printer'')) n1 w0))) = [] \<and>
   PrintObjWithHeaders p1 \<notin>
     set (trace (snd (RunEvacuate (memEvacuate [rc1] [] (Some ''no printer'')) n1 w0))) \<and>
   PrintObjNoHeaders p2 \<notin>
     set (trace (snd (RunEvacuate (memEvacuate [rc1] [] (Some ''no printer'')) n1 w0)))"
  by (simp add: mem_defs run_defs outputs_def)

text \<open>
  C8, amended. In a non-dry-run execution of a node that passes the gate, whose listings
  succeed (the pod selector parses, the pods and the controllers are returned) and whose
  pod printers are obtained, what goes to the two output streams is: nothing if no pod is
  listed; otherwise the banner "Migrating these pods on node: <name>" on \<open>ErrWriter\<close>
  once, then the first listed pod through the printer with headers, then every further
  pod, backed or not, through the printer without headers, in listing order.
\<close>

theorem pods_printed_in_listing_order:
  assumes "\<not> DryRun e" and "Unschedulable node"
    and "labels_Parse (Options e) (PodSelector (Options e)) = Inr ls"
    and "Pods_List (Kclient (Options e)) (cluster w) NamespaceAll ls
           (GetPodHostFieldLabel (Options e) (Node_APIVersion node), Node_Name node) = Inr pods"
    and "ReplicationControllers_List (Kclient (Options e)) (cluster w) NamespaceAll = Inr rcs"
    and "GetPrintersByResource (Options e) = None"
  shows "outputs (trace (snd (RunEvacuate e node w))) =
           outputs (trace w) @
             (case pods of [] \<Rightarrow> []
              | pod # rest \<Rightarrow>
                  ErrWriterPrint (banner node) # PrintObjWithHeaders pod #
                    map PrintObjNoHeaders rest) \<and>
         banner node =
           [CHR 0x0A] @ ''Migrating these pods on node: '' @ Node_Name node @ [CHR 0x0A, CHR 0x0A]"
proof -
  have first: "firstPod (fst (initVars, listed e node ls w))" by (simp add: initVars_def)
  have "outputs (trace (snd (RunEvacuate e node w))) =
           outputs (trace w) @
             (case pods of [] \<Rightarrow> []
              | pod # rest \<Rightarrow>
                  ErrWriterPrint (banner node) # PrintObjWithHeaders pod #
                    map PrintObjNoHeaders rest)"
  proof (cases pods)
    case Nil
    then show ?thesis
      unfolding RunEvacuate_execute [OF assms] by (simp add: finish_world listed_simps)
  next
    case (Cons pod rest)
    show ?thesis
      unfolding RunEvacuate_execute [OF assms] finish_world Cons
        podsLoop_outputs_first [OF first]
      by (simp add: listed_simps)
  qed
  then show ?thesis by (simp add: banner_def)
qed

text \<open>
  C8, amended, on the small cluster: the banner for \<open>n1\<close>, \<open>p1\<close> with headers, \<open>p2\<close> without.
\<close>

theorem pods_printed_in_listing_order_witness:
  "\<not> DryRun (memEvacuate [rc1] [] None) \<and> Unschedulable n1 \<and>
   outputs (trace (snd (RunEvacuate (memEvacuate [rc1] [] None) n1 w0))) =
     [ErrWriterPrint (CHR 0x0A # ''Migrating these pods on node: n1'' @ [CHR 0x0A, CHR 0x0A]),
      PrintObjWithHeaders p1, PrintObjNoHeaders p2]"
proof -
  let ?e = "memEvacuate [rc1] [] None"
  have h1: "\<not> DryRun ?e" by (simp add: mem_defs)
  have h2: "Unschedulable n1" by (simp add: n1_def)
  have h3: "labels_Parse (Options ?e) (PodSelector (Options ?e)) = Inr ''''" by (simp add: mem_defs)
  have h4: "Pods_List (Kclient (Options ?e)) (cluster w0) NamespaceAll ''''
           (GetPodHostFieldLabel (Options ?e) (Node_APIVersion n1), Node_Name n1) = Inr [p1, p2]"
    by (simp add: mem_defs)
  have h5: "ReplicationControllers_List (Kclient (Options ?e)) (cluster w0) NamespaceAll = Inr [rc1]"
    by (simp add: mem_defs)
  have h6: "GetPrintersByResource (Options ?e) = None" by (simp add: mem_defs)
  have t: "outputs (trace w0) = []" by (simp add: w0_def outputs_def)
  have n: "Node_Name n1 = ''n1''" by (simp add: n1_def)
  show ?thesis
    using h1 h2 pods_printed_in_listing_order [OF h1 h2 h3 h4 h5 h6]
    by (simp add: t n)
qed

text \<open>
  C9. Classification never reads a namespace: the controllers are listed with
  \<open>NamespaceAll\<close>, any listed controller whose selector matches the labels of a listed pod
  makes that pod controller-backed, so that it is deleted, and rewriting the namespaces of
  the pod and of all controllers does not change the classification.
\<close>

theorem classification_ignores_namespaces:
  assumes "\<not> DryRun e" and "Unschedulable node"
    and "labels_Parse (Options e) (PodSelector (Options e)) = Inr ls"
    and "Pods_List (Kclient (Options e)) (cluster w) NamespaceAll ls
           (GetPodHostFieldLabel (Options e) (Node_APIVersion node), Node_Name node) = Inr pods"
    and "ReplicationControllers_List (Kclient (Options e)) (cluster w) NamespaceAll = Inr rcs"
    and "GetPrintersByResource (Options e) = None"
    and "rc \<in> set rcs" and "pod \<in> set pods"
    and "Matches (Selector rc) (Labels pod)"
  shows "foundrc rcs pod \<and>
         foundrc (map (\<lambda>rc. rc\<lparr>RC_Namespace := f rc\<rparr>) rcs) (pod\<lparr>Namespace := ns\<rparr>) =
           foundrc rcs pod \<and>
         RCListCall NamespaceAll \<in> set (trace (snd (RunEvacuate e node w))) \<and>
         deleteOf (makeDeleteOptions e) pod \<in> set (trace (snd (RunEvacuate e node w)))"
proof -
  have any: "foundrc rcs' p" if "rc \<in> set rcs'" and "Matches (Selector rc) (Labels p)" for rcs' p
    using that by (induction rcs') auto
  have found: "foundrc rcs pod" using any assms(7,9) by blast
  have same: "foundrc (map (\<lambda>rc. rc\<lparr>RC_Namespace := f rc\<rparr>) rcs) (pod\<lparr>Namespace := ns\<rparr>) =
           foundrc rcs pod"
    by (induction rcs) simp_all
  have "RCListCall NamespaceAll \<in> set (trace (listed e node ls w))"
    by (simp add: listed_def emit_simps)
  then have rcl: "RCListCall NamespaceAll \<in> set (trace (snd (RunEvacuate e node w)))"
    unfolding RunEvacuate_execute [OF assms(1-6)] finish_world
    using podsLoop_trace_grows [of "(initVars, listed e node ls w)" e node rcs "makeDeleteOptions e" pods]
    by auto
  have "deleteOf (makeDeleteOptions e) pod \<in>
          set (map (deleteOf (makeDeleteOptions e)) (filter (\<lambda>pod. foundrc rcs pod \<or> Force e) pods))"
    using found assms(8) by simp
  then have "deleteOf (makeDeleteOptions e) pod \<in> set (deleteCalls (trace (snd (RunEvacuate e node w))))"
    unfolding RunEvacuate_execute [OF assms(1-6)] finish_world podsLoop_deleteCalls
    by auto
  then have del: "deleteOf (makeDeleteOptions e) pod \<in> set (trace (snd (RunEvacuate e node w)))"
    by (simp add: deleteCalls_def)
  show ?thesis using found same rcl del by blast
qed

text \<open>
  C9 on the small cluster: \<open>rc1\<close> lives in namespace \<open>infra\<close>, \<open>p1\<close> in \<open>prod\<close>,
  and \<open>p1\<close> is classified controller-backed and deleted.
\<close>

theorem classification_ignores_namespaces_witness:
  "\<not> DryRun (memEvacuate [rc1] [] None) \<and> Unschedulable n1 \<and> rc1 \<in> set [rc1] \<and> p1 \<in> set [p1, p2] \<and>
   Matches (Selector rc1) (Labels p1) \<and> RC_Namespace rc1 \<noteq> Namespace p1 \<and>
   foundrc [rc1] p1 \<and>
   PodsDeleteCall ''prod'' ''p1'' \<lparr>GracePeriodSeconds = Some 30\<rparr> \<in>
     set (trace (snd (RunEvacuate (memEvacuate [rc1] [] None) n1 w0)))"
proof -
  let ?e = "memEvacuate [rc1] [] None"
  have h1: "\<not> DryRun ?e" by (simp add: mem_defs)
  have h2: "Unschedulable n1" by (simp add: n1_def)
  have h3: "labels_Parse (Options ?e) (PodSelector (Options ?e)) = Inr ''''" by (simp add: mem_defs)
  have h4: "Pods_List (Kclient (Options ?e)) (cluster w0) NamespaceAll ''''
           (GetPodHostFieldLabel (Options ?e) (Node_APIVersion n1), Node_Name n1) = Inr [p1, p2]"
    by (simp add: mem_defs)
  have h5: "ReplicationControllers_List (Kclient (Options ?e)) (cluster w0) NamespaceAll = Inr [rc1]"
    by (simp add: mem_defs)
  have h6: "GetPrintersByResource (Options ?e) = None" by (simp add: mem_defs)
  have h7: "rc1 \<in> set [rc1]" by simp
  have h8: "p1 \<in> set [p1, p2]" by simp
  have h9: "Matches (Selector rc1) (Labels p1)" by (simp add: mem_defs Matches_def)
  have ns: "RC_Namespace rc1 \<noteq> Namespace p1" by (simp add: mem_defs)
  have d: "deleteOf (makeDeleteOptions ?e) p1 = PodsDeleteCall ''prod'' ''p1'' \<lparr>GracePeriodSeconds = Some 30\<rparr>"
    by (simp add: mem_defs deleteOf_def makeDeleteOptions_def)
  show ?thesis
    using h1 h2 h9 ns classification_ignores_namespaces [OF h1 h2 h3 h4 h5 h6 h7 h8 h9]
    unfolding d by simp
qed

text \<open>
  C10. If a listed controller has an empty selector, every pod is classified
  controller-backed, the loop counts no pod as skipped, and the node's error list does not
  hold \<open>UnsafePodsRemain\<close>.
\<close>

theorem empty_selector_backs_every_pod:
  assumes "\<not> DryRun e" and "Unschedulable node"
    and "labels_Parse (Options e) (PodSelector (Options e)) = Inr ls"
    and "Pods_List (Kclient (Options e)) (cluster w) NamespaceAll ls
           (GetPodHostFieldLabel (Options e) (Node_APIVersion node), Node_Name node) = Inr pods"
    and "ReplicationControllers_List (Kclient (Options e)) (cluster w) NamespaceAll = Inr rcs"
    and "rc \<in> set rcs" and "Selector rc = Map.empty"
  shows "(\<forall>pod. foundrc rcs pod) \<and>
         numPodsWithNoRC
           (fst (podsLoop e node rcs (makeDeleteOptions e) pods (initVars, listed e node ls w))) = 0 \<and>
         UnsafePodsRemain \<notin> set (errorsOf (fst (RunEvacuate e node w)))"
proof -
  have found: "foundrc rcs pod" for pod
    using assms(6,7) by (induction rcs) (auto simp add: Matches_def)
  let ?st = "podsLoop e node rcs (makeDeleteOptions e) pods (initVars, listed e node ls w)"
  have num: "numPodsWithNoRC (fst ?st) = 0"
    by (simp add: podsLoop_numPodsWithNoRC found initVars_def)
  obtain es where es: "errList (fst ?st) = map External es"
    using podsLoop_errList [of e node rcs "makeDeleteOptions e" pods "(initVars, listed e node ls w)"]
    by (auto simp add: initVars_def)
  have "UnsafePodsRemain \<notin> set (errorsOf (fst (RunEvacuate e node w)))"
  proof (cases "GetPrintersByResource (Options e)")
    case None
    show ?thesis
      unfolding RunEvacuate_execute [OF assms(1-5) None] finish_errorsOf num es by auto
  next
    case (Some err)
    then have "RunEvacuate e node w = (Some (External err), listed e node ls w)"
      using assms(1-5) by (simp add: RunEvacuate_def listed_def emit_simps)
    then show ?thesis by simp
  qed
  then show ?thesis using found num by blast
qed

text \<open>
  C10 on the small cluster with the controller \<open>rc0\<close> added, whose selector is empty:
  \<open>p2\<close> is now controller-backed and no \<open>UnsafePodsRemain\<close> is reported.
\<close>

theorem empty_selector_backs_every_pod_witness:
  "\<not> DryRun (memEvacuate [rc1, rc0] [] None) \<and> Unschedulable n1 \<and> rc0 \<in> set [rc1, rc0] \<and>
   Selector rc0 = Map.empty \<and> foundrc [rc1, rc0] p2 \<and>
   UnsafePodsRemain \<notin> set (errorsOf (fst (RunEvacuate (memEvacuate [rc1, rc0] [] None) n1 w0)))"
proof -
  let ?e = "memEvacuate [rc1, rc0] [] None"
  have h1: "\<not> DryRun ?e" by (simp add: mem_defs)
  have h2: "Unschedulable n1" by (simp add: n1_def)
  have h3: "labels_Parse (Options ?e) (PodSelector (Options ?e)) = Inr ''''" by (simp add: mem_defs)
  have h4: "Pods_List (Kclient (Options ?e)) (cluster w0) NamespaceAll ''''
           (GetPodHostFieldLabel (Options ?e) (Node_APIVersion n1), Node_Name n1) = Inr [p1, p2]"
    by (simp add: mem_defs)
  have h5: "ReplicationControllers_List (Kclient (Options ?e)) (cluster w0) NamespaceAll = Inr [rc1, rc0]"
    by (simp add: mem_defs)
  have h6: "rc0 \<in> set [rc1, rc0]" by simp
  have h7: "Selector rc0 = Map.empty" by (simp add: rc0_def)
  show ?thesis
    using h1 h2 h6 h7 empty_selector_backs_every_pod [OF h1 h2 h3 h4 h5 h6 h7]
    by blast
qed

end
